theory Spec2Isabelle
  imports Main "HOL-Library.Sublist"
begin

section \<open>Python values, exceptions and built-in string operations\<close>

text \<open>
  The client of \<^verbatim>\<open>tap_shopify_partners/shopify_partners.py\<close> is embedded as pure
  functions. An exception is a value of \<open>error\<close>; a computation that may raise returns
  \<open>error + 'a\<close> with \<open>Inl\<close> for the exception.
\<close>

datatype error =
    ValueError | KeyError | IndexError | TypeError | AttributeError | NameError
  | HTTPStatusError | JSONDecodeError | RequestError

text \<open>
  A decoded JSON document, as \<^verbatim>\<open>response.json()\<close> returns it: a dict is an association
  list in insertion order, a number is kept as an integer.
\<close>

datatype json =
    JNull | JBool bool | JNum int | JStr string | JArr "json list"
  | JObj "(string \<times> json) list"

text \<open>The values a keyword argument of the stream call can hold.\<close>

datatype pyval = PStr string | PNone | PBool bool | PInt int

text \<open>
  \<^verbatim>\<open>s.replace(old, new)\<close>: the leftmost non-overlapping occurrences of \<open>old\<close> are
  replaced, scanning from the left; an empty \<open>old\<close> matches before every character and at
  the end.
\<close>

function str_replace :: "string \<Rightarrow> string \<Rightarrow> string \<Rightarrow> string" where
  "str_replace old new [] = (if old = [] then new else [])"
| "str_replace old new (c # cs) =
     (if old = [] then new @ c # str_replace old new cs
      else if prefix old (c # cs)
        then new @ str_replace old new (drop (length old) (c # cs))
      else c # str_replace old new cs)"
  by pat_completeness auto
termination
  by (relation "measure (\<lambda>(old, new, s). length s)") auto

text \<open>\<^verbatim>\<open>s.split(sep)\<close> for a separator of one character (the source splits on a hyphen).\<close>

fun str_split :: "char \<Rightarrow> string \<Rightarrow> string list" where
  "str_split sep [] = [[]]"
| "str_split sep (c # cs) =
     (if c = sep then [] # str_split sep cs
      else (case str_split sep cs of
              [] \<Rightarrow> [[c]]
            | w # ws \<Rightarrow> (c # w) # ws))"

text \<open>
  A character stands for a code point below 256. White space as \<^verbatim>\<open>str.isspace\<close> sees
  it there, which is what \<^verbatim>\<open>lstrip()\<close> drops: 9 to 13, 28 to 32, 133 and 160.
\<close>

definition is_space :: "char \<Rightarrow> bool" where
  "is_space c =
     (let n = (of_char c :: nat)
      in (9 \<le> n \<and> n \<le> 13) \<or> (28 \<le> n \<and> n \<le> 32) \<or> n = 133 \<or> n = 160)"

text \<open>
  The white space \<^verbatim>\<open>int()\<close> skips around a literal: of the ASCII characters only 9 to
  13 and the blank (28 to 31 are not skipped and make the literal invalid), and the
  white space beyond ASCII, 133 and 160.
\<close>

definition is_int_space :: "char \<Rightarrow> bool" where
  "is_int_space c =
     (let n = (of_char c :: nat) in (9 \<le> n \<and> n \<le> 13) \<or> n = 32 \<or> n = 133 \<or> n = 160)"

definition str_lstrip :: "string \<Rightarrow> string" where
  "str_lstrip s = dropWhile is_space s"

definition is_digit :: "char \<Rightarrow> bool" where
  "is_digit c = (let n = (of_char c :: nat) in 48 \<le> n \<and> n \<le> 57)"

text \<open>
  The digit part of an integer literal: digits, with single underscores allowed between
  two digits.
\<close>

fun digits_ok :: "string \<Rightarrow> bool" where
  "digits_ok [] = False"
| "digits_ok [c] = is_digit c"
| "digits_ok (c # d # cs) =
     (is_digit c \<and>
      (if d = CHR ''_'' then (case cs of [] \<Rightarrow> False | _ \<Rightarrow> digits_ok cs)
       else digits_ok (d # cs)))"

definition digits_value :: "string \<Rightarrow> int" where
  "digits_value s =
     foldl (\<lambda>acc c. 10 * acc + (int (of_char c) - 48)) 0 (filter is_digit s)"

text \<open>
  \<^verbatim>\<open>int(s)\<close> on a string: surrounding white space is skipped, one sign is allowed, and
  anything but a decimal literal raises ValueError. (The bound on the number of digits
  that later Python versions put on the literal is left out.)
\<close>

definition py_int :: "string \<Rightarrow> error + int" where
  "py_int s =
     (let t = rev (dropWhile is_int_space (rev (dropWhile is_int_space s)));
          (neg, ds) = (case t of
                         [] \<Rightarrow> (False, [])
                       | c # r \<Rightarrow> if c = CHR ''-'' then (True, r)
                                  else if c = CHR ''+'' then (False, r)
                                  else (False, t))
      in if digits_ok ds
         then Inr (if neg then - digits_value ds else digits_value ds)
         else Inl ValueError)"

text \<open>\<^verbatim>\<open>xs[i]\<close> on a list raises IndexError out of range.\<close>

definition list_getitem :: "'a list \<Rightarrow> nat \<Rightarrow> error + 'a" where
  "list_getitem xs i = (if i < length xs then Inr (xs ! i) else Inl IndexError)"

fun digit_char :: "nat \<Rightarrow> char" where
  "digit_char n = char_of (48 + n mod 10)"

function str_of_nat :: "nat \<Rightarrow> string" where
  "str_of_nat n = (if n < 10 then [digit_char n] else str_of_nat (n div 10) @ [digit_char n])"
  by pat_completeness auto
termination
  by (relation "measure id") auto

text \<open>\<^verbatim>\<open>str(v)\<close> for the values a keyword argument can hold.\<close>

fun py_str :: "pyval \<Rightarrow> string" where
  "py_str (PStr s) = s"
| "py_str PNone = ''None''"
| "py_str (PBool b) = (if b then ''True'' else ''False'')"
| "py_str (PInt i) = (if i < 0 then CHR ''-'' # str_of_nat (nat (- i)) else str_of_nat (nat i))"

section \<open>Dictionaries and the object store\<close>

type_synonym dict = "(string \<times> string) list"

text \<open>\<^verbatim>\<open>d[k]\<close> raises KeyError on a missing key; \<^verbatim>\<open>d[k] = v\<close> keeps the key's place.\<close>

definition dict_getitem :: "dict \<Rightarrow> string \<Rightarrow> error + string" where
  "dict_getitem d k = (case map_of d k of None \<Rightarrow> Inl KeyError | Some v \<Rightarrow> Inr v)"

fun dict_setitem :: "dict \<Rightarrow> string \<Rightarrow> string \<Rightarrow> dict" where
  "dict_setitem [] k v = [(k, v)]"
| "dict_setitem ((k', v') # d) k v =
     (if k' = k then (k, v) # d else (k', v') # dict_setitem d k v)"

text \<open>
  Dictionaries are objects: the store maps an address (an index) to the dictionary that
  lives there, and two names alias when they hold the same address. The module-level
  \<^verbatim>\<open>HEADERS\<close> is the first object of the store.
\<close>

type_synonym heap = "dict list"

definition HEADERS :: dict where
  "HEADERS =
     [(''Content-Type'', ''application/graphql''),
      (''X-Shopify-Access-Token'', '':token:'')]"

definition HEADERS_addr :: nat where
  "HEADERS_addr = 0"

definition module_heap :: heap where
  "module_heap = [HEADERS]"

definition API_SCHEME :: string where
  "API_SCHEME = ''https://''"

definition API_BASE_URL :: string where
  "API_BASE_URL = ''partners.shopify.com/''"

definition API_ORG_ID :: string where
  "API_ORG_ID = '':organization_id:/''"

definition API_VERSION :: string where
  "API_VERSION = ''api/2022-01/''"

definition API_PATH_CALL_TYPE :: string where
  "API_PATH_CALL_TYPE = ''graphql.json''"

text \<open>
  The names the module binds at its top level (lines 4 to 28 of the source): the imports,
  the constants and the class. A name that is read and is not bound raises NameError
  (neither \<^verbatim>\<open>date\<close> nor \<^verbatim>\<open>DAILY\<close> is a Python built-in).
\<close>

definition module_globals :: "string list" where
  "module_globals =
     [''logging'', ''datetime'', ''timedelta'', ''timezone'', ''MappingProxyType'',
      ''Generator'', ''Optional'', ''Callable'', ''httpx'', ''singer'', ''isoparse'',
      ''WEEKLY'', ''rrule'', ''CLEANERS'', ''QUERIES'', ''API_SCHEME'', ''API_BASE_URL'',
      ''API_ORG_ID'', ''API_VERSION'', ''API_PATH_CALL_TYPE'', ''HEADERS'', ''Shopify'']"

definition name_bound :: "string \<Rightarrow> bool" where
  "name_bound n = (n \<in> set module_globals)"

section \<open>The client object\<close>

text \<open>
  The fields \<^verbatim>\<open>__init__\<close> sets, and \<^verbatim>\<open>self.headers\<close>, which exists only once
  \<^verbatim>\<open>_create_headers\<close> has run (it holds the address of the header dictionary).
\<close>

record shopify =
  organization_id :: string
  shopify_partners_access_token :: string
  headers :: "nat option"

datatype attribute =
    A_organization_id | A_shopify_partners_access_token | A_logger | A_client | A_headers
  | M_init | M_shopify_partners_transactions | M_create_headers | M_start_days_till_now

text \<open>
  Attribute lookup on an instance of \<^verbatim>\<open>Shopify\<close>, for the names the class and its
  \<^verbatim>\<open>__init__\<close> introduce: the instance's fields, then the four methods the class body
  defines. Another name raises AttributeError. (The attributes every Python object
  inherits from \<^verbatim>\<open>object\<close>, such as \<^verbatim>\<open>__doc__\<close>, are left out: the source reads
  none of them.)
\<close>

definition getattr :: "shopify \<Rightarrow> string \<Rightarrow> error + attribute" where
  "getattr self n =
     (if n = ''organization_id'' then Inr A_organization_id
      else if n = ''shopify_partners_access_token'' then Inr A_shopify_partners_access_token
      else if n = ''logger'' then Inr A_logger
      else if n = ''client'' then Inr A_client
      else if n = ''headers'' \<and> headers self \<noteq> None then Inr A_headers
      else if n = ''__init__'' then Inr M_init
      else if n = ''shopify_partners_transactions'' then Inr M_shopify_partners_transactions
      else if n = ''_create_headers'' then Inr M_create_headers
      else if n = ''_start_days_till_now'' then Inr M_start_days_till_now
      else Inl AttributeError)"

text \<open>
  \<^verbatim>\<open>_create_headers\<close> (lines 115 to 122): copy the template into a new dictionary,
  substitute the token there, and store the new dictionary's address in the object.
\<close>

definition underscore_create_headers :: "shopify \<Rightarrow> heap \<Rightarrow> error + (shopify \<times> heap)" where
  "underscore_create_headers self h =
     (let a = length h;
          h1 = h @ [h ! HEADERS_addr]
      in case dict_getitem (h1 ! a) ''X-Shopify-Access-Token'' of
           Inl e \<Rightarrow> Inl e
         | Inr v \<Rightarrow>
             let v' = str_replace '':token:'' (shopify_partners_access_token self) v;
                 h2 = h1[a := dict_setitem (h1 ! a) ''X-Shopify-Access-Token'' v']
             in Inr (self\<lparr>headers := Some a\<rparr>, h2))"

text \<open>
  Calling an attribute with no argument, as line 84 does with what it looks up: only
  \<^verbatim>\<open>_create_headers\<close> and the stream method (which would only build a generator)
  accept that; the other methods miss arguments and the fields are not callable.
\<close>

fun call_no_args :: "attribute \<Rightarrow> shopify \<Rightarrow> heap \<Rightarrow> error + (shopify \<times> heap)" where
  "call_no_args M_create_headers self h = underscore_create_headers self h"
| "call_no_args M_shopify_partners_transactions self h = Inr (self, h)"
| "call_no_args _ self h = Inl TypeError"

section \<open>External collaborators\<close>

record request =
  url :: string
  req_headers :: dict
  data :: string

text \<open>
  A response of the transport: its status code and its body as \<^verbatim>\<open>response.json()\<close>
  decodes it (\<open>None\<close> when the body is not JSON and decoding raises).
\<close>

record response =
  status_code :: nat
  body :: "json option"

text \<open>
  What the module takes from outside: the date libraries, the clock, the two registries of
  \<^verbatim>\<open>tap_shopify_partners.queries\<close> and \<^verbatim>\<open>tap_shopify_partners.cleaners\<close>, and the
  HTTP client. The client answers the \<open>n\<close>-th request of a run (counted from 0) with a
  response or an exception; \<open>raises_on_every_non_2xx\<close> is the library version's choice in
  \<^verbatim>\<open>raise_for_status\<close>.
\<close>

record ('d, 'dt) env =
  isoparse :: "string \<Rightarrow> error + 'dt"
  now_utc :: 'dt
  utcnow :: 'dt
  datetime_date :: "int \<Rightarrow> int \<Rightarrow> int \<Rightarrow> error + 'd"
  rrule_daily :: "'d \<Rightarrow> 'dt \<Rightarrow> 'dt list"
  strftime :: "'dt \<Rightarrow> string"
  QUERIES :: "string \<Rightarrow> string option"
  CLEANERS :: "string \<Rightarrow> (string \<Rightarrow> json \<Rightarrow> error + json) option"
  client_get :: "nat \<Rightarrow> request \<Rightarrow> error + response"
  raises_on_every_non_2xx :: bool

text \<open>What a run does, in order, and how it ends.\<close>

datatype 'dt log_message = Stream_message | Retrieving_message 'dt 'dt | Finished_message

datatype 'dt event = Log_info "'dt log_message" | Request request | Yield json

datatype outcome = Done | Raised error

section \<open>The date windower\<close>

text \<open>
  \<^verbatim>\<open>_start_days_till_now\<close> (lines 124 to 149). The three components are parsed first;
  then the body reads the names \<^verbatim>\<open>date\<close>, \<^verbatim>\<open>rrule\<close>, \<^verbatim>\<open>DAILY\<close> and
  \<^verbatim>\<open>datetime\<close>, in that order. The result is the days the generator yields and how it
  ends.
\<close>

definition underscore_start_days_till_now ::
  "('d, 'dt) env \<Rightarrow> string \<Rightarrow> string list \<times> outcome" where
  "underscore_start_days_till_now env start_date =
     (let parts = str_split CHR ''-'' start_date in
      case list_getitem parts 0 of Inl e \<Rightarrow> ([], Raised e) | Inr p0 \<Rightarrow>
      case py_int p0 of Inl e \<Rightarrow> ([], Raised e) | Inr year \<Rightarrow>
      case list_getitem parts 1 of Inl e \<Rightarrow> ([], Raised e) | Inr p1 \<Rightarrow>
      case py_int (str_lstrip p1) of Inl e \<Rightarrow> ([], Raised e) | Inr month \<Rightarrow>
      case list_getitem parts 2 of Inl e \<Rightarrow> ([], Raised e) | Inr p2 \<Rightarrow>
      case py_int (str_lstrip p2) of Inl e \<Rightarrow> ([], Raised e) | Inr day \<Rightarrow>
      if \<not> name_bound ''date'' then ([], Raised NameError)
      else case datetime_date env year month day of Inl e \<Rightarrow> ([], Raised e) | Inr period \<Rightarrow>
      if \<not> name_bound ''rrule'' then ([], Raised NameError)
      else if \<not> name_bound ''DAILY'' then ([], Raised NameError)
      else if \<not> name_bound ''datetime'' then ([], Raised NameError)
      else (map (strftime env) (rrule_daily env period (utcnow env)), Done))"

section \<open>The request builder and one day of the extraction loop\<close>

text \<open>Lines 89 and 90: the two placeholders of the query template are replaced in turn.\<close>

definition build_query :: "string \<Rightarrow> string \<Rightarrow> string" where
  "build_query query date_day =
     str_replace '':todate:'' (date_day @ ''T23:59:59.999999Z'')
       (str_replace '':fromdate:'' (date_day @ ''T00:00:00.000000Z'') query)"

text \<open>
  \<^verbatim>\<open>response.raise_for_status()\<close>: an error on 4xx and 5xx, as line 100 says, and never
  on 2xx. On the other status codes it depends on the version of the library (later
  versions raise on every status that is not 2xx), which the flag says.
\<close>

definition raise_for_status :: "bool \<Rightarrow> response \<Rightarrow> error + unit" where
  "raise_for_status every_non_2xx r =
     (if 400 \<le> status_code r \<and> status_code r < 600 then Inl HTTPStatusError
      else if every_non_2xx \<and> \<not> (200 \<le> status_code r \<and> status_code r < 300)
        then Inl HTTPStatusError
      else Inr ())"

text \<open>\<^verbatim>\<open>v[k]\<close> with a string key, and \<^verbatim>\<open>iter(v)\<close>, on a decoded JSON value.\<close>

fun json_getitem :: "json \<Rightarrow> string \<Rightarrow> error + json" where
  "json_getitem (JObj kvs) k = (case map_of kvs k of None \<Rightarrow> Inl KeyError | Some v \<Rightarrow> Inr v)"
| "json_getitem _ k = Inl TypeError"

fun json_iter :: "json \<Rightarrow> error + json list" where
  "json_iter (JArr xs) = Inr xs"
| "json_iter (JObj kvs) = Inr (map (\<lambda>kv. JStr (fst kv)) kvs)"
| "json_iter (JStr s) = Inr (map (\<lambda>c. JStr [c]) s)"
| "json_iter _ = Inl TypeError"

text \<open>\<^verbatim>\<open>response_data['data']['transactions']['edges']\<close> of line 108.\<close>

definition response_edges :: "json \<Rightarrow> error + json" where
  "response_edges response_data =
     (case json_getitem response_data ''data'' of Inl e \<Rightarrow> Inl e | Inr d \<Rightarrow>
      case json_getitem d ''transactions'' of Inl e \<Rightarrow> Inl e | Inr t \<Rightarrow>
      json_getitem t ''edges'')"

text \<open>
  Line 98: \<^verbatim>\<open>CLEANERS.get('clean_shopify_partners_transactions', {})\<close> is the registered
  function, or an empty dictionary when the registry has no such entry.
\<close>

datatype cleaner = Callable "string \<Rightarrow> json \<Rightarrow> error + json" | Empty_dict

definition get_cleaner :: "('d, 'dt) env \<Rightarrow> cleaner" where
  "get_cleaner env =
     (case CLEANERS env ''clean_shopify_partners_transactions'' of
        None \<Rightarrow> Empty_dict
      | Some f \<Rightarrow> Callable f)"

fun call_cleaner :: "cleaner \<Rightarrow> string \<Rightarrow> json \<Rightarrow> error + json" where
  "call_cleaner (Callable f) date_day transaction = f date_day transaction"
| "call_cleaner Empty_dict date_day transaction = Inl TypeError"

text \<open>
  Lines 106 to 109: the generator expression calls the cleaner on one edge at a time and
  yields the result before it looks at the next edge.
\<close>

fun yield_from :: "cleaner \<Rightarrow> string \<Rightarrow> json list \<Rightarrow> 'dt event list \<times> outcome" where
  "yield_from c date_day [] = ([], Done)"
| "yield_from c date_day (transaction # rest) =
     (case call_cleaner c date_day transaction of
        Inl e \<Rightarrow> ([], Raised e)
      | Inr r \<Rightarrow> (case yield_from c date_day rest of (evs, out) \<Rightarrow> (Yield r # evs, out)))"

text \<open>
  The body of the loop (lines 87 to 109) for one day; \<open>n\<close> is the number of requests the
  run has sent before.
\<close>

definition process_day ::
  "('d, 'dt) env \<Rightarrow> shopify \<Rightarrow> heap \<Rightarrow> string \<Rightarrow> nat \<Rightarrow> string \<Rightarrow> 'dt event list \<times> outcome" where
  "process_day env self h url' n date_day =
     (case QUERIES env ''transactions'' of None \<Rightarrow> ([], Raised KeyError) | Some q \<Rightarrow>
      let query = build_query q date_day in
      case getattr self ''headers'' of Inl e \<Rightarrow> ([], Raised e) | Inr _ \<Rightarrow>
      let rq = \<lparr>url = url', req_headers = h ! the (headers self), data = query\<rparr> in
      case client_get env n rq of Inl e \<Rightarrow> ([Request rq], Raised e) | Inr resp \<Rightarrow>
      let c = get_cleaner env in
      case raise_for_status (raises_on_every_non_2xx env) resp of Inl e \<Rightarrow> ([Request rq], Raised e) | Inr _ \<Rightarrow>
      case body resp of None \<Rightarrow> ([Request rq], Raised JSONDecodeError) | Some response_data \<Rightarrow>
      case response_edges response_data of Inl e \<Rightarrow> ([Request rq], Raised e) | Inr edges \<Rightarrow>
      case json_iter edges of Inl e \<Rightarrow> ([Request rq], Raised e) | Inr items \<Rightarrow>
      case yield_from c date_day items of (evs, out) \<Rightarrow> (Request rq # evs, out))"

text \<open>
  The \<^verbatim>\<open>for\<close> loop of line 86 over the days the windower yields: a day that raises ends
  the run there, and every day that completes has sent exactly one request.
\<close>

fun loop_days ::
  "('d, 'dt) env \<Rightarrow> shopify \<Rightarrow> heap \<Rightarrow> string \<Rightarrow> nat \<Rightarrow> string list \<Rightarrow> 'dt event list \<times> outcome" where
  "loop_days env self h url' n [] = ([], Done)"
| "loop_days env self h url' n (date_day # rest) =
     (case process_day env self h url' n date_day of
        (evs, Raised e) \<Rightarrow> (evs, Raised e)
      | (evs, Done) \<Rightarrow>
          (case loop_days env self h url' (Suc n) rest of (evs', out) \<Rightarrow> (evs @ evs', out)))"

text \<open>
  Lines 86 to 113 with the windower's generator as the iterable: its days are processed
  in turn, an exception it ends with is raised once its days are used up, and line 113
  logs the end of a run that got there.
\<close>

definition extraction_loop ::
  "('d, 'dt) env \<Rightarrow> shopify \<Rightarrow> heap \<Rightarrow> string \<Rightarrow> string list \<times> outcome \<Rightarrow> 'dt event list \<times> outcome" where
  "extraction_loop env self h url' windows =
     (case loop_days env self h url' 0 (fst windows) of
        (evs, Raised e) \<Rightarrow> (evs, Raised e)
      | (evs, Done) \<Rightarrow>
          (case snd windows of
             Raised e \<Rightarrow> (evs, Raised e)
           | Done \<Rightarrow> (evs @ [Log_info Finished_message], Done)))"

section \<open>The stream method\<close>

text \<open>
  The body of \<^verbatim>\<open>shopify_partners_transactions\<close> (lines 59 to 113), run to its end: the
  events in order and the outcome.
\<close>

definition transactions_body ::
  "('d, 'dt) env \<Rightarrow> shopify \<Rightarrow> (string \<Rightarrow> pyval option) \<Rightarrow> heap \<Rightarrow> 'dt event list \<times> outcome" where
  "transactions_body env self kwargs h =
     (let start_date_input =
            py_str (case kwargs ''start_date'' of None \<Rightarrow> PStr [] | Some v \<Rightarrow> v)
      in if start_date_input = [] then ([Log_info Stream_message], Raised ValueError)
      else case isoparse env start_date_input of
        Inl e \<Rightarrow> ([Log_info Stream_message], Raised e)
      | Inr start_date \<Rightarrow>
          let end_date = now_utc env;
              evs = [Log_info Stream_message, Log_info (Retrieving_message start_date end_date)];
              org_id = str_replace '':organization_id:'' (organization_id self) API_ORG_ID;
              url' = API_SCHEME @ API_BASE_URL @ org_id @ API_VERSION @ API_PATH_CALL_TYPE
          in case getattr self ''create_headers'' of
               Inl e \<Rightarrow> (evs, Raised e)
             | Inr m \<Rightarrow>
                 (case call_no_args m self h of
                    Inl e \<Rightarrow> (evs, Raised e)
                  | Inr (self', h') \<Rightarrow>
                      (case extraction_loop env self' h' url'
                              (underscore_start_days_till_now env start_date_input) of
                         (evs', out) \<Rightarrow> (evs @ evs', out))))"

text \<open>
  The method is a generator function: the call binds the arguments and returns a generator
  that has not run any of the body; each \<^verbatim>\<open>next\<close> runs the body up to its next
  \<^verbatim>\<open>yield\<close>, or to its end.
\<close>

datatype 'dt generator =
    Created shopify "string \<Rightarrow> pyval option"
  | Suspended "'dt event list" outcome
  | Finished

datatype step = Yielded json | StopIteration | Raise error

definition shopify_partners_transactions ::
  "shopify \<Rightarrow> (string \<Rightarrow> pyval option) \<Rightarrow> 'dt generator \<times> 'dt event list" where
  "shopify_partners_transactions self kwargs = (Created self kwargs, [])"

fun is_yield :: "'dt event \<Rightarrow> bool" where
  "is_yield (Yield r) = True"
| "is_yield _ = False"

definition advance :: "'dt event list \<times> outcome \<Rightarrow> 'dt event list \<times> step \<times> 'dt generator" where
  "advance run =
     (let pre = takeWhile (\<lambda>e. \<not> is_yield e) (fst run) in
      case dropWhile (\<lambda>e. \<not> is_yield e) (fst run) of
        Yield r # later \<Rightarrow> (pre, Yielded r, Suspended later (snd run))
      | _ \<Rightarrow> (pre, (case snd run of Done \<Rightarrow> StopIteration | Raised e \<Rightarrow> Raise e), Finished))"

fun generator_next ::
  "('d, 'dt) env \<Rightarrow> heap \<Rightarrow> 'dt generator \<Rightarrow> 'dt event list \<times> step \<times> 'dt generator" where
  "generator_next env h (Created self kwargs) = advance (transactions_body env self kwargs h)"
| "generator_next env h (Suspended evs out) = advance (evs, out)"
| "generator_next env h Finished = ([], StopIteration, Finished)"

section \<open>Sample inputs\<close>

text \<open>
  Concrete collaborators for the examples below. The stand-in for
  \<^verbatim>\<open>dateutil.parser.isoparse\<close> raises ValueError on a string of fewer than four
  characters, as the library does ("ISO string too short"), and accepts every other string
  unparsed: the parsed start date is only written to the log. The transport answers every
  request with status 200 and two edges; the cleaner tags an edge with its day.
\<close>

definition sample_query :: string where
  "sample_query =
     ''{transactions(createdAtMin: :fromdate:, createdAtMax: :todate:) {edges {node {id}}}}''"

definition sample_cleaner :: "string \<Rightarrow> json \<Rightarrow> error + json" where
  "sample_cleaner date_day transaction =
     Inr (JObj [(''day'', JStr date_day), (''transaction'', transaction)])"

definition sample_edges :: "json list" where
  "sample_edges = [JObj [(''id'', JStr ''tx1'')], JObj [(''id'', JStr ''tx2'')]]"

definition sample_body :: "json list \<Rightarrow> json" where
  "sample_body edges = JObj [(''data'', JObj [(''transactions'', JObj [(''edges'', JArr edges)])])]"

definition sample_env :: "(unit, string) env" where
  "sample_env =
     \<lparr>isoparse = (\<lambda>s. if length s < 4 then Inl ValueError else Inr s),
      now_utc = ''2022-03-03 12:00:00+00:00'',
      utcnow = ''2022-03-03 12:00:00'',
      datetime_date = (\<lambda>y m d. Inr ()),
      rrule_daily = (\<lambda>p u. []),
      strftime = (\<lambda>t. t),
      QUERIES = [''transactions'' \<mapsto> sample_query],
      CLEANERS = [''clean_shopify_partners_transactions'' \<mapsto> sample_cleaner],
      client_get = (\<lambda>n rq. Inr \<lparr>status_code = 200, body = Some (sample_body sample_edges)\<rparr>),
      raises_on_every_non_2xx = False\<rparr>"

definition sample_client :: shopify where
  "sample_client =
     \<lparr>organization_id = ''1234'', shopify_partners_access_token = ''secret'', headers = None\<rparr>"

text \<open>The same client once \<^verbatim>\<open>_create_headers\<close> has run on the module's store.\<close>

definition sample_heap :: heap where
  "sample_heap =
     [HEADERS,
      [(''Content-Type'', ''application/graphql''), (''X-Shopify-Access-Token'', ''secret'')]]"

definition sample_client_ready :: shopify where
  "sample_client_ready = sample_client\<lparr>headers := Some 1\<rparr>"

text \<open>
  The same collaborators with no cleaner registered and a transport whose every day has
  no edge.
\<close>

definition sample_env_no_cleaner :: "(unit, string) env" where
  "sample_env_no_cleaner =
     sample_env
       \<lparr>CLEANERS := Map.empty,
        client_get := (\<lambda>n rq. Inr \<lparr>status_code = 200, body = Some (sample_body [])\<rparr>)\<rparr>"

text \<open>A transport that answers the second request of a run with status 402.\<close>

definition sample_env_402 :: "(unit, string) env" where
  "sample_env_402 =
     sample_env
       \<lparr>client_get := (\<lambda>n rq. if n = 1 then Inr \<lparr>status_code = 402, body = None\<rparr>
                               else Inr \<lparr>status_code = 200,
                                         body = Some (sample_body sample_edges)\<rparr>)\<rparr>"

text \<open>
  A transport that answers the second request with status 200 and a body without
  \<^verbatim>\<open>transactions\<close> under \<^verbatim>\<open>data\<close>.
\<close>

definition sample_env_malformed :: "(unit, string) env" where
  "sample_env_malformed =
     sample_env
       \<lparr>client_get := (\<lambda>n rq. if n = 1
                               then Inr \<lparr>status_code = 200,
                                         body = Some (JObj [(''data'', JObj [])])\<rparr>
                               else Inr \<lparr>status_code = 200,
                                         body = Some (sample_body sample_edges)\<rparr>)\<rparr>"

definition sample_url :: string where
  "sample_url = ''https://partners.shopify.com/1234/api/2022-01/graphql.json''"

definition sample_request :: "string \<Rightarrow> request" where
  "sample_request date_day =
     \<lparr>url = sample_url,
      req_headers = [(''Content-Type'', ''application/graphql''),
                     (''X-Shopify-Access-Token'', ''secret'')],
      data = build_query sample_query date_day\<rparr>"

definition sample_record :: "string \<Rightarrow> string \<Rightarrow> json" where
  "sample_record date_day ident =
     JObj [(''day'', JStr date_day), (''transaction'', JObj [(''id'', JStr ident)])]"

section \<open>Notions the properties are stated with\<close>

text \<open>
  The response contract names a nested path: following a list of keys through nested
  dictionaries gives the value at the end, or nothing when a key is missing or a value
  on the way is not a dictionary.
\<close>

fun json_path :: "json \<Rightarrow> string list \<Rightarrow> json option" where
  "json_path v [] = Some v"
| "json_path v (k # ks) =
     (case v of
        JObj kvs \<Rightarrow> (case map_of kvs k of None \<Rightarrow> None | Some v' \<Rightarrow> json_path v' ks)
      | _ \<Rightarrow> None)"


fun is_log :: "'dt event \<Rightarrow> bool" where
  "is_log (Log_info m) = True"
| "is_log _ = False"


section \<open>Header composition\<close>

text \<open>
  C7. Header composition does not touch the shared template and gives every call a
  dictionary of its own: on a store that holds the template at \<open>HEADERS_addr\<close>, two
  successive calls of \<^verbatim>\<open>_create_headers\<close> (on any two clients, so with any two tokens)
  both succeed, leave the two objects with two different addresses, both different from
  the template's; the template is unchanged after each call, each new dictionary is the
  template with the caller's token under \<^verbatim>\<open>X-Shopify-Access-Token\<close> (so equal tokens
  give equal dictionaries), the second call leaves the first dictionary as it was, and
  nothing that was in the store before is changed.
\<close>

theorem create_headers_independent:
  assumes "HEADERS_addr < length h" and "h ! HEADERS_addr = HEADERS"
  shows "\<exists>s1' h1 s2' h2 a1 a2.
           underscore_create_headers s1 h = Inr (s1', h1)
         \<and> underscore_create_headers s2 h1 = Inr (s2', h2)
         \<and> headers s1' = Some a1 \<and> headers s2' = Some a2
         \<and> a1 \<noteq> a2 \<and> a1 \<noteq> HEADERS_addr \<and> a2 \<noteq> HEADERS_addr
         \<and> h1 ! HEADERS_addr = HEADERS \<and> h2 ! HEADERS_addr = HEADERS
         \<and> h1 ! a1 = [(''Content-Type'', ''application/graphql''),
                       (''X-Shopify-Access-Token'', shopify_partners_access_token s1)]
         \<and> h2 ! a1 = h1 ! a1
         \<and> h2 ! a2 = [(''Content-Type'', ''application/graphql''),
                       (''X-Shopify-Access-Token'', shopify_partners_access_token s2)]
         \<and> take (length h) h2 = h"
proof -
  let ?d1 = "[(''Content-Type'', ''application/graphql''),
              (''X-Shopify-Access-Token'', shopify_partners_access_token s1)]"
  let ?d2 = "[(''Content-Type'', ''application/graphql''),
              (''X-Shopify-Access-Token'', shopify_partners_access_token s2)]"
  have c1: "underscore_create_headers s1 h = Inr (s1\<lparr>headers := Some (length h)\<rparr>, h @ [?d1])"
    using assms by (simp add: underscore_create_headers_def HEADERS_def dict_getitem_def Let_def)
  have h0: "(h @ [?d1]) ! HEADERS_addr = HEADERS"
    using assms by (simp add: nth_append)
  have c2: "underscore_create_headers s2 (h @ [?d1]) =
              Inr (s2\<lparr>headers := Some (Suc (length h))\<rparr>, h @ [?d1, ?d2])"
    using h0 assms(1)
    by (simp add: underscore_create_headers_def HEADERS_def dict_getitem_def Let_def nth_append
        list_update_append)
  show ?thesis
    using assms c1 c2 h0 by (simp add: nth_append)
qed

theorem create_headers_independent_witness:
  "underscore_create_headers sample_client module_heap = Inr (sample_client_ready, sample_heap)
   \<and> underscore_create_headers (sample_client\<lparr>shopify_partners_access_token := ''other''\<rparr>)
         sample_heap
       = Inr (sample_client\<lparr>shopify_partners_access_token := ''other'', headers := Some 2\<rparr>,
              sample_heap @ [[(''Content-Type'', ''application/graphql''),
                              (''X-Shopify-Access-Token'', ''other'')]])
   \<and> sample_heap ! HEADERS_addr = HEADERS"
  using create_headers_independent
    [of module_heap sample_client "sample_client\<lparr>shopify_partners_access_token := ''other''\<rparr>"]
  by (simp add: module_heap_def HEADERS_addr_def sample_heap_def sample_client_def
      sample_client_ready_def underscore_create_headers_def dict_getitem_def HEADERS_def Let_def)

section \<open>The stream method\<close>

lemma getattr_create_headers: "getattr self ''create_headers'' = Inl AttributeError"
  by (simp add: getattr_def)

lemma getattr_headers: "headers self = Some a \<Longrightarrow> getattr self ''headers'' = Inr A_headers"
  by (simp add: getattr_def)


text \<open>
  C3. When \<^verbatim>\<open>start_date\<close> is absent or is the empty string, the run consists of the
  first log line and a ValueError: no request is sent before the error, the first
  \<^verbatim>\<open>next\<close> on the generator raises it, and the generator is finished afterwards, so
  no request is sent after it either.
\<close>

theorem missing_start_date_raises_before_transport:
  assumes "kwargs ''start_date'' = None \<or> kwargs ''start_date'' = Some (PStr [])"
  shows "transactions_body env self kwargs h = ([Log_info Stream_message], Raised ValueError)
       \<and> generator_next env h (Created self kwargs)
           = ([Log_info Stream_message], Raise ValueError, Finished)
       \<and> generator_next env h Finished = ([], StopIteration, Finished)"
  using assms by (auto simp add: transactions_body_def advance_def)

theorem missing_start_date_raises_before_transport_witness:
  "transactions_body sample_env sample_client Map.empty module_heap
     = ([Log_info Stream_message], Raised ValueError)
   \<and> transactions_body sample_env sample_client [''start_date'' \<mapsto> PStr []] module_heap
     = ([Log_info Stream_message], Raised ValueError)"
  using missing_start_date_raises_before_transport
      [where kwargs = Map.empty and env = sample_env and self = sample_client
         and h = module_heap]
    missing_start_date_raises_before_transport
      [where kwargs = "[''start_date'' \<mapsto> PStr []]" and env = sample_env
         and self = sample_client and h = module_heap]
  by simp

text \<open>
  C9, as amended. With a start date that is not empty, line 68 comes first: when
  \<^verbatim>\<open>isoparse\<close> raises, the run is the first log line and that exception; when
  \<^verbatim>\<open>isoparse\<close> returns, the run is the two log lines and the AttributeError of line 84.
  Whatever the arguments are, a run only writes log lines (it sends no request and yields
  no record) and never ends normally.
\<close>

theorem nonempty_start_date_never_reaches_transport:
  "(\<forall>t. py_str (case kwargs ''start_date'' of None \<Rightarrow> PStr [] | Some v \<Rightarrow> v) \<noteq> []
        \<and> isoparse env (py_str (case kwargs ''start_date'' of None \<Rightarrow> PStr [] | Some v \<Rightarrow> v))
            = Inr t
      \<longrightarrow> transactions_body env self kwargs h
            = ([Log_info Stream_message, Log_info (Retrieving_message t (now_utc env))],
               Raised AttributeError))
   \<and> (\<forall>e. py_str (case kwargs ''start_date'' of None \<Rightarrow> PStr [] | Some v \<Rightarrow> v) \<noteq> []
        \<and> isoparse env (py_str (case kwargs ''start_date'' of None \<Rightarrow> PStr [] | Some v \<Rightarrow> v))
            = Inl e
      \<longrightarrow> transactions_body env self kwargs h = ([Log_info Stream_message], Raised e))
   \<and> list_all is_log (fst (transactions_body env self kwargs h))
   \<and> snd (transactions_body env self kwargs h) \<noteq> Done"
  by (auto simp add: transactions_body_def getattr_create_headers Let_def split: sum.splits)

theorem nonempty_start_date_never_reaches_transport_witness:
  "transactions_body sample_env sample_client [''start_date'' \<mapsto> PStr ''2022-03-02'']
       module_heap
     = ([Log_info Stream_message,
         Log_info (Retrieving_message ''2022-03-02'' ''2022-03-03 12:00:00+00:00'')],
        Raised AttributeError)
   \<and> transactions_body sample_env sample_client [''start_date'' \<mapsto> PStr ''ab'']
       module_heap
     = ([Log_info Stream_message], Raised ValueError)"
  using nonempty_start_date_never_reaches_transport
      [where kwargs = "[''start_date'' \<mapsto> PStr ''2022-03-02'']" and env = sample_env
         and self = sample_client and h = module_heap]
    nonempty_start_date_never_reaches_transport
      [where kwargs = "[''start_date'' \<mapsto> PStr ''ab'']" and env = sample_env
         and self = sample_client and h = module_heap]
  by (simp add: sample_env_def)

text \<open>
  C9 as stated fails: the start date \<^verbatim>\<open>x\<close> is not empty, and the run ends at line 68
  with the ValueError of \<^verbatim>\<open>isoparse\<close>, before line 84 is reached.
\<close>

theorem malformed_start_date_counterexample:
  "transactions_body sample_env sample_client [''start_date'' \<mapsto> PStr ''x''] module_heap
     = ([Log_info Stream_message], Raised ValueError)"
  by (simp add: transactions_body_def sample_env_def)

text \<open>
  C10. The call itself does nothing: it returns a generator and no event. The first
  \<^verbatim>\<open>next\<close> on that generator runs the body up to its first \<^verbatim>\<open>yield\<close> or its end,
  and with \<^verbatim>\<open>start_date\<close> absent or empty that is where the first log line is written
  and the ValueError is raised.
\<close>

theorem call_runs_nothing:
  "(case shopify_partners_transactions self kwargs of
      (g, evs) \<Rightarrow>
        evs = []
        \<and> generator_next env h g = advance (transactions_body env self kwargs h)
        \<and> (kwargs ''start_date'' = None \<or> kwargs ''start_date'' = Some (PStr []) \<longrightarrow>
             generator_next env h g = ([Log_info Stream_message], Raise ValueError, Finished)))"
  by (auto simp add: shopify_partners_transactions_def transactions_body_def advance_def)

theorem call_runs_nothing_witness:
  "(case shopify_partners_transactions sample_client Map.empty of
      (g, evs) \<Rightarrow>
        evs = []
        \<and> generator_next sample_env module_heap g
            = ([Log_info Stream_message], Raise ValueError, Finished))"
  using call_runs_nothing
    [where self = sample_client and kwargs = Map.empty and env = sample_env
       and h = module_heap]
  by (simp add: shopify_partners_transactions_def)

text \<open>
  C1 does not hold of the code. With the transport of the specification's example, which
  answers with two edges, and the start date 2022-03-01, the run is the two log lines
  and the AttributeError of line 84: the first \<^verbatim>\<open>next\<close> on the generator raises, no
  request is sent and no record is yielded, where the claim wants two records.
\<close>

theorem two_edge_response_yields_no_record:
  "transactions_body sample_env sample_client [''start_date'' \<mapsto> PStr ''2022-03-01'']
       module_heap
     = ([Log_info Stream_message,
         Log_info (Retrieving_message ''2022-03-01'' ''2022-03-03 12:00:00+00:00'')],
        Raised AttributeError)
   \<and> generator_next sample_env module_heap
        (Created sample_client [''start_date'' \<mapsto> PStr ''2022-03-01''])
     = ([Log_info Stream_message,
         Log_info (Retrieving_message ''2022-03-01'' ''2022-03-03 12:00:00+00:00'')],
        Raise AttributeError, Finished)"
  by (simp add: transactions_body_def sample_env_def getattr_create_headers advance_def)

text \<open>
  C5 does not hold of the code. With a transport that answers the second day with status
  402 and the start date 2022-03-01, the run ends with the AttributeError of line 84
  before any request: the status is never seen and no HTTPStatusError is raised.
\<close>

theorem status_402_is_never_seen:
  "transactions_body sample_env_402 sample_client [''start_date'' \<mapsto> PStr ''2022-03-01'']
       module_heap
     = ([Log_info Stream_message,
         Log_info (Retrieving_message ''2022-03-01'' ''2022-03-03 12:00:00+00:00'')],
        Raised AttributeError)"
  by (simp add: transactions_body_def sample_env_402_def sample_env_def getattr_create_headers)

text \<open>
  C8 does not hold of the code. With a transport that answers the second day with a body
  that lacks \<^verbatim>\<open>data.transactions.edges\<close> and the start date 2022-03-01, the run ends with
  the AttributeError of line 84 before any request: the body is never read, and the
  exception is not one about the response.
\<close>

theorem malformed_body_is_never_read:
  "transactions_body sample_env_malformed sample_client
       [''start_date'' \<mapsto> PStr ''2022-03-01''] module_heap
     = ([Log_info Stream_message,
         Log_info (Retrieving_message ''2022-03-01'' ''2022-03-03 12:00:00+00:00'')],
        Raised AttributeError)"
  by (simp add: transactions_body_def sample_env_malformed_def sample_env_def
      getattr_create_headers)



section \<open>The date windower\<close>

lemma name_bound_date: "\<not> name_bound ''date''"
  by (simp add: name_bound_def module_globals_def)

lemma start_days_general:
  "fst (underscore_start_days_till_now env start_date) = []
   \<and> snd (underscore_start_days_till_now env start_date) \<noteq> Done"
  by (simp add: underscore_start_days_till_now_def Let_def name_bound_date split: sum.splits)

lemma start_days_concrete:
  "underscore_start_days_till_now env ''2022-03-01'' = ([], Raised NameError)"
  by (simp add: underscore_start_days_till_now_def Let_def name_bound_date list_getitem_def
      py_int_def str_lstrip_def is_space_def is_int_space_def is_digit_def)

text \<open>
  C2 does not hold of the code: \<^verbatim>\<open>_start_days_till_now\<close> reads the name
  \<^verbatim>\<open>date\<close>, which the module never imports, so for every start date the generator
  yields no day and ends with an exception; for \<^verbatim>\<open>2022-03-01\<close>, whose three components
  parse, the exception is the NameError.
\<close>

theorem start_days_till_now_never_yields:
  "fst (underscore_start_days_till_now env start_date) = []
   \<and> snd (underscore_start_days_till_now env start_date) \<noteq> Done
   \<and> underscore_start_days_till_now env ''2022-03-01'' = ([], Raised NameError)"
  using start_days_general start_days_concrete by blast

section \<open>The loop body taken alone\<close>

text \<open>
  The lemmas of this section are about lines 86 to 113 started from a state that no run
  of the method reaches (the two sections before show that): a client whose headers
  have been set by \<^verbatim>\<open>_create_headers\<close>, and a given list of days. They record what
  the loop is written to do.
\<close>

lemma loop_days_append:
  "loop_days env self h u n (xs @ ys) =
     (case loop_days env self h u n xs of
        (evs, Raised e) \<Rightarrow> (evs, Raised e)
      | (evs, Done) \<Rightarrow>
          (case loop_days env self h u (n + length xs) ys of (evs', out) \<Rightarrow> (evs @ evs', out)))"
proof (induction xs arbitrary: n)
  case Nil
  then show ?case by (simp split: prod.splits)
next
  case (Cons x xs)
  show ?case
    by (simp add: Cons.IH split: prod.splits outcome.splits)
qed

lemma extraction_loop_stops:
  assumes "loop_days env self h u 0 pre = (evs, Done)"
      and "process_day env self h u (length pre) d = (evs', Raised e)"
  shows "extraction_loop env self h u (pre @ d # post, fin) = (evs @ evs', Raised e)"
  using assms by (simp add: extraction_loop_def loop_days_append)

lemma yield_from_callable:
  "(\<forall>e \<in> set es. f d e = Inr (g e)) \<Longrightarrow>
     yield_from (Callable f) d es = (map (\<lambda>e. Yield (g e)) es, Done)"
  by (induction es) auto

lemma process_day_ok:
  fixes env :: "('d, 'dt) env"
  assumes "QUERIES env ''transactions'' = Some q"
      and "headers self = Some a"
      and "CLEANERS env ''clean_shopify_partners_transactions'' = Some f"
      and "client_get env n \<lparr>url = u, req_headers = h ! a, data = build_query q d\<rparr> = Inr r"
      and "200 \<le> status_code r" and "status_code r < 300"
      and "body r = Some b"
      and "response_edges b = Inr (JArr es)"
      and "\<forall>e \<in> set es. f d e = Inr (g e)"
  shows "process_day env self h u n d =
           (Request \<lparr>url = u, req_headers = h ! a, data = build_query q d\<rparr>
              # map (\<lambda>e. Yield (g e)) es, Done)"
proof -
  have "(yield_from (Callable f) d es :: 'dt event list \<times> outcome)
          = (map (\<lambda>e. Yield (g e)) es, Done)"
    using assms(9) by (rule yield_from_callable)
  with assms show ?thesis
    by (simp add: process_day_def getattr_headers raise_for_status_def get_cleaner_def)
qed

lemma loop_days_ok:
  assumes "QUERIES env ''transactions'' = Some q"
      and "headers self = Some a"
      and "CLEANERS env ''clean_shopify_partners_transactions'' = Some f"
      and "\<forall>i < length ws. \<exists>r b.
             client_get env (n + i)
               \<lparr>url = u, req_headers = h ! a, data = build_query q (fst (ws ! i))\<rparr> = Inr r
             \<and> 200 \<le> status_code r \<and> status_code r < 300
             \<and> body r = Some b \<and> response_edges b = Inr (JArr (snd (ws ! i)))
             \<and> (\<forall>e \<in> set (snd (ws ! i)). f (fst (ws ! i)) e = Inr (g (fst (ws ! i)) e))"
  shows "loop_days env self h u n (map fst ws) =
           (concat (map (\<lambda>w. Request \<lparr>url = u, req_headers = h ! a,
                                        data = build_query q (fst w)\<rparr>
                               # map (\<lambda>e. Yield (g (fst w) e)) (snd w)) ws), Done)"
  using assms(4)
proof (induction ws arbitrary: n)
  case Nil
  then show ?case by simp
next
  case (Cons w ws)
  from Cons.prems [rule_format, of 0] obtain r b where
    r: "client_get env n \<lparr>url = u, req_headers = h ! a, data = build_query q (fst w)\<rparr> = Inr r"
       "200 \<le> status_code r" "status_code r < 300" "body r = Some b"
       "response_edges b = Inr (JArr (snd w))"
       "\<forall>e \<in> set (snd w). f (fst w) e = Inr (g (fst w) e)"
    by auto
  have day: "process_day env self h u n (fst w) =
           (Request \<lparr>url = u, req_headers = h ! a, data = build_query q (fst w)\<rparr>
              # map (\<lambda>e. Yield (g (fst w) e)) (snd w), Done)"
    using assms(1-3) r by (rule process_day_ok)
  have "\<forall>i < length ws. \<exists>r b.
             client_get env (Suc n + i)
               \<lparr>url = u, req_headers = h ! a, data = build_query q (fst (ws ! i))\<rparr> = Inr r
             \<and> 200 \<le> status_code r \<and> status_code r < 300
             \<and> body r = Some b \<and> response_edges b = Inr (JArr (snd (ws ! i)))
             \<and> (\<forall>e \<in> set (snd (ws ! i)). f (fst (ws ! i)) e = Inr (g (fst (ws ! i)) e))"
  proof (intro allI impI)
    fix i assume "i < length ws"
    then have "Suc i < length (w # ws)" by simp
    from Cons.prems [rule_format, OF this] show "\<exists>r b.
             client_get env (Suc n + i)
               \<lparr>url = u, req_headers = h ! a, data = build_query q (fst (ws ! i))\<rparr> = Inr r
             \<and> 200 \<le> status_code r \<and> status_code r < 300
             \<and> body r = Some b \<and> response_edges b = Inr (JArr (snd (ws ! i)))
             \<and> (\<forall>e \<in> set (snd (ws ! i)). f (fst (ws ! i)) e = Inr (g (fst (ws ! i)) e))"
      by simp
  qed
  from Cons.IH [OF this] day show ?case by simp
qed

text \<open>
  When the \<open>i\<close>-th request (the one for the \<open>i\<close>-th day) is answered with a 2xx
  status and a body whose \<^verbatim>\<open>data.transactions.edges\<close> is the list \<open>snd (ws ! i)\<close>, and
  the registered cleaner \<open>f\<close> returns on each of these edges, the loop gives, day after
  day, that day's request followed by one record per edge, in edge order, each the
  cleaner's result on the day and the edge.
\<close>

lemma loop_body_one_record_per_edge:
  assumes "QUERIES env ''transactions'' = Some q"
      and "headers self = Some a"
      and "CLEANERS env ''clean_shopify_partners_transactions'' = Some f"
      and "\<forall>i < length ws. \<exists>r b.
             client_get env i
               \<lparr>url = u, req_headers = h ! a, data = build_query q (fst (ws ! i))\<rparr> = Inr r
             \<and> 200 \<le> status_code r \<and> status_code r < 300
             \<and> body r = Some b \<and> response_edges b = Inr (JArr (snd (ws ! i)))
             \<and> (\<forall>e \<in> set (snd (ws ! i)). f (fst (ws ! i)) e = Inr (g (fst (ws ! i)) e))"
  shows "extraction_loop env self h u (map fst ws, Done) =
           (concat (map (\<lambda>w. Request \<lparr>url = u, req_headers = h ! a,
                                        data = build_query q (fst w)\<rparr>
                               # map (\<lambda>e. Yield (g (fst w) e)) (snd w)) ws)
              @ [Log_info Finished_message], Done)"
proof -
  have "loop_days env self h u 0 (map fst ws) =
           (concat (map (\<lambda>w. Request \<lparr>url = u, req_headers = h ! a,
                                        data = build_query q (fst w)\<rparr>
                               # map (\<lambda>e. Yield (g (fst w) e)) (snd w)) ws), Done)"
    using assms by (intro loop_days_ok) auto
  then show ?thesis by (simp add: extraction_loop_def)
qed

lemma loop_body_one_record_per_edge_example:
  "extraction_loop sample_env sample_client_ready sample_heap
       ''https://partners.shopify.com/1234/api/2022-01/graphql.json''
       ([''2022-03-01''], Done) =
     ([Request \<lparr>url = ''https://partners.shopify.com/1234/api/2022-01/graphql.json'',
                req_headers = [(''Content-Type'', ''application/graphql''),
                               (''X-Shopify-Access-Token'', ''secret'')],
                data = build_query sample_query ''2022-03-01''\<rparr>,
       Yield (JObj [(''day'', JStr ''2022-03-01''),
                    (''transaction'', JObj [(''id'', JStr ''tx1'')])]),
       Yield (JObj [(''day'', JStr ''2022-03-01''),
                    (''transaction'', JObj [(''id'', JStr ''tx2'')])]),
       Log_info Finished_message], Done)"
  using loop_body_one_record_per_edge
    [where env = sample_env and self = sample_client_ready and h = sample_heap
       and u = "''https://partners.shopify.com/1234/api/2022-01/graphql.json''"
       and q = sample_query and a = 1 and f = sample_cleaner
       and ws = "[(''2022-03-01'', sample_edges)]"
       and g = "\<lambda>d e. JObj [(''day'', JStr d), (''transaction'', e)]"]
  by (simp add: sample_env_def sample_client_ready_def sample_client_def sample_heap_def
      sample_cleaner_def sample_edges_def sample_body_def response_edges_def)

text \<open>
  When the days before \<open>d\<close> have completed and the request for \<open>d\<close> is answered with a
  4xx or 5xx status, the loop gives the events of the earlier days, then the one request
  for \<open>d\<close>, and ends with HTTPStatusError.
\<close>

lemma loop_body_http_error:
  assumes "loop_days env self h u 0 pre = (evs, Done)"
      and "QUERIES env ''transactions'' = Some q"
      and "headers self = Some a"
      and "client_get env (length pre)
             \<lparr>url = u, req_headers = h ! a, data = build_query q d\<rparr> = Inr r"
      and "400 \<le> status_code r" and "status_code r < 600"
  shows "extraction_loop env self h u (pre @ d # post, fin)
           = (evs @ [Request \<lparr>url = u, req_headers = h ! a, data = build_query q d\<rparr>],
              Raised HTTPStatusError)"
proof -
  have "process_day env self h u (length pre) d
          = ([Request \<lparr>url = u, req_headers = h ! a, data = build_query q d\<rparr>],
             Raised HTTPStatusError)"
    using assms(2-6) by (simp add: process_day_def getattr_headers raise_for_status_def)
  with assms(1) show ?thesis
    by (rule extraction_loop_stops)
qed

lemma sample_first_day:
  "loop_days sample_env_402 sample_client_ready sample_heap sample_url 0 [''2022-03-01'']
     = ([Request (sample_request ''2022-03-01''),
         Yield (sample_record ''2022-03-01'' ''tx1''),
         Yield (sample_record ''2022-03-01'' ''tx2'')], Done)"
  by (simp add: process_day_def sample_env_402_def sample_env_def sample_client_ready_def
      sample_client_def sample_heap_def getattr_def raise_for_status_def get_cleaner_def
      sample_body_def sample_edges_def response_edges_def sample_cleaner_def
      sample_request_def sample_record_def)

lemma loop_body_http_error_example:
  "extraction_loop sample_env_402 sample_client_ready sample_heap sample_url
       ([''2022-03-01'', ''2022-03-02'', ''2022-03-03''], Done)
     = ([Request (sample_request ''2022-03-01''),
         Yield (sample_record ''2022-03-01'' ''tx1''),
         Yield (sample_record ''2022-03-01'' ''tx2''),
         Request (sample_request ''2022-03-02'')],
        Raised HTTPStatusError)"
  using loop_body_http_error
    [where env = sample_env_402 and self = sample_client_ready and h = sample_heap
       and u = sample_url and pre = "[''2022-03-01'']" and d = "''2022-03-02''"
       and post = "[''2022-03-03'']" and fin = Done and q = sample_query and a = 1
       and r = "\<lparr>status_code = 402, body = None\<rparr>"
       and evs = "[Request (sample_request ''2022-03-01''),
                   Yield (sample_record ''2022-03-01'' ''tx1''),
                   Yield (sample_record ''2022-03-01'' ''tx2'')]"]
    sample_first_day
  by (simp add: sample_env_402_def sample_env_def sample_client_ready_def sample_client_def
      sample_heap_def sample_request_def)

lemma response_edges_lacking:
  assumes "json_path b [''data'', ''transactions'', ''edges''] = None"
  shows "response_edges b = Inl KeyError \<or> response_edges b = Inl TypeError"
  using assms
  by (auto simp add: response_edges_def split: json.splits option.splits sum.splits)

text \<open>
  When the days before \<open>d\<close> have completed and the response for \<open>d\<close> has a body that
  is not JSON, or a decoded body without the nested path \<^verbatim>\<open>data.transactions.edges\<close>,
  the loop ends after the request for \<open>d\<close> with HTTPStatusError when
  \<^verbatim>\<open>raise_for_status\<close> raises, otherwise with JSONDecodeError for a body that is not
  JSON, and with KeyError or TypeError for a missing path.
\<close>

lemma loop_body_malformed_response:
  assumes "loop_days env self h u 0 pre = (evs, Done)"
      and "QUERIES env ''transactions'' = Some q"
      and "headers self = Some a"
      and "client_get env (length pre)
             \<lparr>url = u, req_headers = h ! a, data = build_query q d\<rparr> = Inr r"
      and "body r = None
           \<or> (\<exists>b. body r = Some b \<and> json_path b [''data'', ''transactions'', ''edges''] = None)"
  shows "\<exists>e. extraction_loop env self h u (pre @ d # post, fin)
               = (evs @ [Request \<lparr>url = u, req_headers = h ! a, data = build_query q d\<rparr>],
                  Raised e)
            \<and> (if raise_for_status (raises_on_every_non_2xx env) r \<noteq> Inr ()
                 then e = HTTPStatusError
               else if body r = None then e = JSONDecodeError
               else e = KeyError \<or> e = TypeError)"
proof -
  let ?rq = "\<lparr>url = u, req_headers = h ! a, data = build_query q d\<rparr>"
  have "\<exists>e. process_day env self h u (length pre) d = ([Request ?rq], Raised e)
            \<and> (if raise_for_status (raises_on_every_non_2xx env) r \<noteq> Inr ()
                 then e = HTTPStatusError
               else if body r = None then e = JSONDecodeError
               else e = KeyError \<or> e = TypeError)"
  proof (cases "raise_for_status (raises_on_every_non_2xx env) r")
    case (Inl x)
    then have "x = HTTPStatusError"
      by (auto simp add: raise_for_status_def split: if_splits)
    with Inl assms(2-4) show ?thesis
      by (simp add: process_day_def getattr_headers)
  next
    case (Inr x)
    show ?thesis
    proof (cases "body r")
      case None
      with Inr assms(2-4) show ?thesis
        by (simp add: process_day_def getattr_headers)
    next
      case (Some b)
      with assms(5) have "json_path b [''data'', ''transactions'', ''edges''] = None"
        by simp
      then have "response_edges b = Inl KeyError \<or> response_edges b = Inl TypeError"
        by (rule response_edges_lacking)
      with Some Inr assms(2-4) show ?thesis
        by (auto simp add: process_day_def getattr_headers)
    qed
  qed
  then obtain e where
    e: "process_day env self h u (length pre) d = ([Request ?rq], Raised e)"
       "if raise_for_status (raises_on_every_non_2xx env) r \<noteq> Inr ()
          then e = HTTPStatusError
        else if body r = None then e = JSONDecodeError
        else e = KeyError \<or> e = TypeError"
    by blast
  from assms(1) e(1) have "extraction_loop env self h u (pre @ d # post, fin)
      = (evs @ [Request ?rq], Raised e)"
    by (rule extraction_loop_stops)
  with e(2) show ?thesis by blast
qed

lemma sample_first_day_malformed:
  "loop_days sample_env_malformed sample_client_ready sample_heap sample_url 0 [''2022-03-01'']
     = ([Request (sample_request ''2022-03-01''),
         Yield (sample_record ''2022-03-01'' ''tx1''),
         Yield (sample_record ''2022-03-01'' ''tx2'')], Done)"
  by (simp add: process_day_def sample_env_malformed_def sample_env_def sample_client_ready_def
      sample_client_def sample_heap_def getattr_def raise_for_status_def get_cleaner_def
      sample_body_def sample_edges_def response_edges_def sample_cleaner_def
      sample_request_def sample_record_def)

lemma sample_second_day_malformed:
  "process_day sample_env_malformed sample_client_ready sample_heap sample_url 1 ''2022-03-02''
     = ([Request (sample_request ''2022-03-02'')], Raised KeyError)"
  by (simp add: process_day_def sample_env_malformed_def sample_env_def sample_client_ready_def
      sample_client_def sample_heap_def getattr_def raise_for_status_def get_cleaner_def
      response_edges_def sample_request_def)

lemma loop_body_malformed_response_example:
  "extraction_loop sample_env_malformed sample_client_ready sample_heap sample_url
       ([''2022-03-01'', ''2022-03-02'', ''2022-03-03''], Done)
     = ([Request (sample_request ''2022-03-01''),
         Yield (sample_record ''2022-03-01'' ''tx1''),
         Yield (sample_record ''2022-03-01'' ''tx2''),
         Request (sample_request ''2022-03-02'')],
        Raised KeyError)"
proof -
  have q: "QUERIES sample_env_malformed ''transactions'' = Some sample_query"
    by (simp add: sample_env_malformed_def sample_env_def)
  have a: "headers sample_client_ready = Some 1"
    by (simp add: sample_client_ready_def)
  have r: "client_get sample_env_malformed (length [''2022-03-01''])
             \<lparr>url = sample_url, req_headers = sample_heap ! 1,
              data = build_query sample_query ''2022-03-02''\<rparr>
           = Inr \<lparr>status_code = 200, body = Some (JObj [(''data'', JObj [])])\<rparr>"
    by (simp add: sample_env_malformed_def sample_env_def)
  have shape: "body \<lparr>status_code = 200, body = Some (JObj [(''data'', JObj [])])\<rparr> = None
      \<or> (\<exists>b. body \<lparr>status_code = 200, body = Some (JObj [(''data'', JObj [])])\<rparr> = Some b
              \<and> json_path b [''data'', ''transactions'', ''edges''] = None)"
    by simp
  from loop_body_malformed_response
         [OF sample_first_day_malformed q a r shape, of "[''2022-03-03'']" Done]
  obtain e where
    "extraction_loop sample_env_malformed sample_client_ready sample_heap sample_url
       ([''2022-03-01''] @ ''2022-03-02'' # [''2022-03-03''], Done)
     = ([Request (sample_request ''2022-03-01''),
         Yield (sample_record ''2022-03-01'' ''tx1''),
         Yield (sample_record ''2022-03-01'' ''tx2'')]
        @ [Request \<lparr>url = sample_url, req_headers = sample_heap ! 1,
                     data = build_query sample_query ''2022-03-02''\<rparr>], Raised e)"
    by blast
  moreover have "extraction_loop sample_env_malformed sample_client_ready sample_heap sample_url
       ([''2022-03-01''] @ ''2022-03-02'' # [''2022-03-03''], Done)
     = ([Request (sample_request ''2022-03-01''),
         Yield (sample_record ''2022-03-01'' ''tx1''),
         Yield (sample_record ''2022-03-01'' ''tx2'')]
        @ [Request (sample_request ''2022-03-02'')], Raised KeyError)"
    using sample_first_day_malformed sample_second_day_malformed
    by (intro extraction_loop_stops) simp_all
  ultimately show ?thesis by simp
qed

lemma yield_from_empty_dict:
  "yield_from Empty_dict d items = ([], if items = [] then Done else Raised TypeError)"
  by (cases items) auto

lemma process_day_no_cleaner_events:
  assumes "CLEANERS env ''clean_shopify_partners_transactions'' = None"
  shows "list_all (\<lambda>ev. \<not> is_yield ev) (fst (process_day env self h u n d))"
  using assms
  by (simp add: process_day_def get_cleaner_def yield_from_empty_dict Let_def
      split: option.splits sum.splits)

lemma loop_days_no_cleaner_events:
  assumes "CLEANERS env ''clean_shopify_partners_transactions'' = None"
  shows "list_all (\<lambda>ev. \<not> is_yield ev) (fst (loop_days env self h u n ds))"
proof (induction ds arbitrary: n)
  case Nil
  then show ?case by simp
next
  case (Cons d ds)
  have a: "list_all (\<lambda>ev. \<not> is_yield ev) (fst (process_day env self h u n d))"
    using assms by (rule process_day_no_cleaner_events)
  have b: "list_all (\<lambda>ev. \<not> is_yield ev) (fst (loop_days env self h u (Suc n) ds))"
    by (rule Cons.IH)
  show ?case
    using a b by (auto split: prod.splits outcome.splits)
qed

lemma extraction_loop_no_cleaner_events:
  assumes "CLEANERS env ''clean_shopify_partners_transactions'' = None"
  shows "list_all (\<lambda>ev. \<not> is_yield ev) (fst (extraction_loop env self h u w))"
  using loop_days_no_cleaner_events [OF assms, of self h u 0 "fst w"]
  by (auto simp add: extraction_loop_def split: prod.splits outcome.splits)

text \<open>
  With no cleaner registered, line 98 does not fail: it falls back to an empty
  dictionary. The loop then yields no record; a day with edges raises TypeError (the
  dictionary is called) after its request, and a day without edges completes.
\<close>

lemma missing_cleaner_loop_body:
  assumes "CLEANERS env ''clean_shopify_partners_transactions'' = None"
      and "loop_days env self h u 0 pre = (evs, Done)"
      and "QUERIES env ''transactions'' = Some q"
      and "headers self = Some a"
      and "client_get env (length pre)
             \<lparr>url = u, req_headers = h ! a, data = build_query q d\<rparr> = Inr r"
      and "200 \<le> status_code r" and "status_code r < 300"
      and "body r = Some b"
      and "response_edges b = Inr (JArr es)"
  shows "list_all (\<lambda>ev. \<not> is_yield ev) (fst (extraction_loop env self h u w))
       \<and> process_day env self h u (length pre) d
           = ([Request \<lparr>url = u, req_headers = h ! a, data = build_query q d\<rparr>],
              if es = [] then Done else Raised TypeError)
       \<and> (es \<noteq> [] \<longrightarrow>
            extraction_loop env self h u (pre @ d # post, fin)
              = (evs @ [Request \<lparr>url = u, req_headers = h ! a, data = build_query q d\<rparr>],
                 Raised TypeError))"
proof -
  have day: "process_day env self h u (length pre) d
           = ([Request \<lparr>url = u, req_headers = h ! a, data = build_query q d\<rparr>],
              if es = [] then Done else Raised TypeError)"
    using assms(1,3-9)
    by (simp add: process_day_def getattr_headers raise_for_status_def get_cleaner_def
        yield_from_empty_dict)
  have "es \<noteq> [] \<longrightarrow>
            extraction_loop env self h u (pre @ d # post, fin)
              = (evs @ [Request \<lparr>url = u, req_headers = h ! a, data = build_query q d\<rparr>],
                 Raised TypeError)"
    using extraction_loop_stops [OF assms(2), of d _ TypeError post fin] day by simp
  with day extraction_loop_no_cleaner_events [OF assms(1)] show ?thesis by blast
qed

lemma missing_cleaner_loop_body_example:
  "extraction_loop (sample_env\<lparr>CLEANERS := Map.empty\<rparr>) sample_client_ready sample_heap
       sample_url ([''2022-03-01'', ''2022-03-02''], Done)
     = ([Request (sample_request ''2022-03-01'')], Raised TypeError)"
  using missing_cleaner_loop_body
    [where env = "sample_env\<lparr>CLEANERS := Map.empty\<rparr>" and self = sample_client_ready
       and h = sample_heap and u = sample_url and pre = "[]" and evs = "[]"
       and d = "''2022-03-01''" and post = "[''2022-03-02'']" and fin = Done
       and q = sample_query and a = 1
       and r = "\<lparr>status_code = 200, body = Some (sample_body sample_edges)\<rparr>"
       and b = "sample_body sample_edges" and es = sample_edges]
  by (simp add: sample_env_def sample_client_ready_def sample_client_def sample_heap_def
      sample_request_def sample_body_def sample_edges_def response_edges_def)

lemma missing_cleaner_loop_body_no_edges:
  "extraction_loop sample_env_no_cleaner sample_client_ready sample_heap sample_url
       ([''2022-03-01''], Done)
     = ([Request (sample_request ''2022-03-01''), Log_info Finished_message], Done)"
  by (simp add: extraction_loop_def process_day_def sample_env_no_cleaner_def sample_env_def
      sample_client_ready_def sample_client_def sample_heap_def getattr_def
      raise_for_status_def get_cleaner_def sample_body_def response_edges_def
      sample_request_def)

section \<open>The request builder\<close>








































end
